theory Spec2Isabelle
  imports Complex_Main "HOL-Library.AList"
begin

section \<open>Data model of p2p\_chat.py\<close>

text \<open>
  The program exchanges UDP datagrams whose payload is a JSON object. The bytes are turned
  into a Python value by the standard library (\<open>json.loads(data.decode())\<close>); the model
  starts at the outcome of that call. A Python \<open>str\<close> is a \<open>string\<close> (code points
  beyond the 8-bit range are not modelled), a Python \<open>dict\<close> is the list of its items in
  insertion order (keys distinct), clock readings (\<open>time.time()\<close>, a float in the source)
  are real numbers of seconds. What the environment does (the clock, the socket, the user
  at the prompt, the file system) is an argument of the function that asks for it.
\<close>

datatype json =
    JNull
  | JBool bool
  | JInt int
  | JFloat real
  | JStr string
  | JList "json list"
  | JDict "(string \<times> json) list"

text \<open>What \<open>json.loads(data.decode())\<close> does with the bytes of one datagram: it returns
  the parsed value or raises. \<open>json.loads\<close> rejects text that is not JSON with
  JSONDecodeError, but it gives up on deep nesting (such as 3000 opening brackets, which
  fit in the 4096 bytes of a datagram) with RecursionError.\<close>

datatype payload =
    Not_utf8         \<comment> \<open>\<open>data.decode()\<close> raises UnicodeDecodeError\<close>
  | Not_json         \<comment> \<open>\<open>json.loads\<close> raises JSONDecodeError\<close>
  | Too_deep         \<comment> \<open>\<open>json.loads\<close> raises RecursionError (brackets nested too deeply)\<close>
  | Json json        \<comment> \<open>the parsed value\<close>

datatype exn =
    KeyError string
  | AttributeError
  | TypeError
  | UnicodeDecodeError
  | JSONDecodeError
  | RecursionError
  | EOFError
  | OSError
  | SocketTimeout
  | IsADirectoryError

datatype status = Active | Inactive

text \<open>One constructor for each \<open>print\<close> call of the source; colours and the wall-clock
  prefix of a chat line are left out.\<close>

datatype event =
    Received_invalid_message string          \<comment> \<open>line 136, with \<open>addr[0]\<close>\<close>
  | Error_handling_message exn               \<comment> \<open>line 138\<close>
  | Chat_line json string string             \<comment> \<open>line 106: sender name, sender ip, text\<close>
  | Is_typing json                           \<comment> \<open>line 115\<close>
  | Message_read_by json                     \<comment> \<open>line 120\<close>
  | Has_disconnected json string             \<comment> \<open>line 130\<close>
  | Now_chatting_with json string            \<comment> \<open>line 147\<close>
  | User_not_found string                    \<comment> \<open>line 149\<close>
  | Left_chat_with json                      \<comment> \<open>line 158\<close>
  | Available_peers                          \<comment> \<open>line 359\<close>
  | No_peers_discovered                      \<comment> \<open>line 361\<close>
  | Peer_line json string status             \<comment> \<open>line 365\<close>
  | Blank_line                               \<comment> \<open>line 366\<close>
  | Help_text                                \<comment> \<open>line 433\<close>
  | File_offer_from json string              \<comment> \<open>line 335\<close>
  | Offer_filename json                      \<comment> \<open>line 336\<close>
  | Offer_size json                          \<comment> \<open>line 337\<close>
  | Offer_hash json                          \<comment> \<open>line 338\<close>
  | Accept_file_prompt                       \<comment> \<open>line 340\<close>
  | File_transfer_starting                   \<comment> \<open>line 344\<close>
  | Not_implemented_note                     \<comment> \<open>line 345\<close>
  | File_rejected                            \<comment> \<open>line 347\<close>
  | File_not_found string                    \<comment> \<open>line 304\<close>
  | File_offer_sent string nat               \<comment> \<open>line 322\<close>
  | Waiting_for_response                     \<comment> \<open>line 323\<close>
  | Failed_to_send_file_offer exn            \<comment> \<open>line 326\<close>
  | Discovering_peers                        \<comment> \<open>line 370\<close>

text \<open>An entry of \<open>self.peers\<close>: \<open>{'username': ..., 'last_seen': ...}\<close>. The name is
  whatever JSON value the presence datagram carried.\<close>

record peer_info =
  peer_username :: json
  last_seen :: real

text \<open>The fields of a \<open>P2PChat\<close> object, together with the terminal (\<open>out\<close>: what was
  printed so far) and the socket (\<open>sent\<close>: the objects handed to \<open>sendto\<close>, with their
  destination).\<close>

record chat =
  username :: string
  port :: int
  peers :: "(string \<times> peer_info) list"
  current_chat :: "string option"
  out :: "event list"
  sent :: "(json \<times> string \<times> int) list"

text \<open>A handler returns the state it reached and the exception it raised, if any.\<close>

type_synonym result = "exn option \<times> chat"

text \<open>\<open>__init__\<close> (lines 33-41): \<open>username or socket.gethostname()\<close>, no peers, no
  chat partner.\<close>

definition init :: "string option \<Rightarrow> string \<Rightarrow> int \<Rightarrow> chat" where
  "init name hostname prt =
     \<lparr>username = (case name of None \<Rightarrow> hostname
                              | Some n \<Rightarrow> if n = [] then hostname else n),
      port = prt, peers = [], current_chat = None, out = [], sent = []\<rparr>"

definition print :: "event list \<Rightarrow> chat \<Rightarrow> chat" where
  "print es s = s\<lparr>out := out s @ es\<rparr>"

section \<open>Python primitives\<close>

definition startswith :: "string \<Rightarrow> string \<Rightarrow> bool" where
  "startswith s p = (take (length p) s = p)"

text \<open>\<open>str.isspace\<close> on the code points below 256: the ASCII white space and controls,
  NEL (U+0085) and the no-break space (U+00A0). \<open>str.strip()\<close> removes these at both
  ends.\<close>

definition isspace :: "char \<Rightarrow> bool" where
  "isspace c = (c \<in> set [CHR 0x09, CHR 0x0A, CHR 0x0B, CHR 0x0C, CHR 0x0D,
                          CHR 0x1C, CHR 0x1D, CHR 0x1E, CHR 0x1F, CHR 0x20,
                          CHR 0x85, CHR 0xA0])"

definition strip :: "string \<Rightarrow> string" where
  "strip s = rev (dropWhile isspace (rev (dropWhile isspace s)))"

text \<open>Truth value of \<open>self.current_chat\<close> and of \<open>from_ip\<close>: \<open>None\<close> and the empty
  string are false.\<close>

definition truthy :: "string option \<Rightarrow> bool" where
  "truthy c = (case c of None \<Rightarrow> False | Some a \<Rightarrow> a \<noteq> [])"

text \<open>\<open>message.get(k)\<close> and \<open>message[k]\<close> on the items of a dict.\<close>

definition dict_get :: "(string \<times> json) list \<Rightarrow> string \<Rightarrow> json option" where
  "dict_get m k = map_of m k"

section \<open>Peer listing (lines 357-366)\<close>

definition peer_status :: "real \<Rightarrow> peer_info \<Rightarrow> status" where
  "peer_status now info = (if now - last_seen info < 60 then Active else Inactive)"

text \<open>The \<open>for\<close> loop over \<open>self.peers.items()\<close>.\<close>

fun peer_lines :: "real \<Rightarrow> (string \<times> peer_info) list \<Rightarrow> event list" where
  "peer_lines now [] = []"
| "peer_lines now ((ip, info) # rest) =
     Peer_line (peer_username info) ip (peer_status now info) # peer_lines now rest"

definition list_peers :: "real \<Rightarrow> chat \<Rightarrow> chat" where
  "list_peers now s =
     print ([Available_peers] @
            (if peers s = [] then [No_peers_discovered] else peer_lines now (peers s)) @
            [Blank_line]) s"

definition show_help :: "chat \<Rightarrow> chat" where
  "show_help s = print [Help_text] s"

section \<open>Command handling (lines 140-162)\<close>

definition handle_command :: "string \<Rightarrow> string option \<Rightarrow> real \<Rightarrow> chat \<Rightarrow> result" where
  "handle_command command from_ip now s =
     (if startswith command ''/msg '' then
        (let target = strip (drop 5 command) in
         case map_of (peers s) target of
           Some info \<Rightarrow>
             (None, print [Now_chatting_with (peer_username info) target]
                      (s\<lparr>current_chat := Some target\<rparr>))
         | None \<Rightarrow> (None, print [User_not_found target] s))
      else if command = ''/list'' then (None, list_peers now s)
      else if command = ''/quit'' \<and> truthy from_ip then
        (case current_chat s of
           None \<Rightarrow> (None, s)
         | Some partner \<Rightarrow>
             if partner = [] then (None, s)
             else (case map_of (peers s) partner of
                     None \<Rightarrow> (Some (KeyError partner), s)
                   | Some info \<Rightarrow>
                       (None, (print [Left_chat_with (peer_username info)] s)
                                \<lparr>current_chat := None\<rparr>)))
      else if command = ''/help'' then (None, show_help s)
      else (None, s))"

section \<open>Incoming file offers (lines 328-347)\<close>

text \<open>\<open>file_hash[:16]\<close>: a string or a list can be sliced, any other JSON value raises
  TypeError (a dict because a slice is not hashable, as of Python 3.11).\<close>

definition slice16 :: "json \<Rightarrow> json option" where
  "slice16 v = (case v of JStr h \<Rightarrow> Some (JStr (take 16 h))
                        | JList l \<Rightarrow> Some (JList (take 16 l))
                        | _ \<Rightarrow> None)"

text \<open>\<open>answer\<close> is the line the user types at the prompt (\<open>None\<close>: end of input);
  \<open>response.lower() == 'y'\<close> holds for \<open>y\<close> and \<open>Y\<close> only.\<close>

definition handle_file_offer ::
  "(string \<times> json) list \<Rightarrow> string \<Rightarrow> string option \<Rightarrow> chat \<Rightarrow> result" where
  "handle_file_offer offer from_ip answer s =
     (case dict_get offer ''filename'' of
        None \<Rightarrow> (Some (KeyError ''filename''), s)
      | Some filename \<Rightarrow>
     (case dict_get offer ''size'' of
        None \<Rightarrow> (Some (KeyError ''size''), s)
      | Some file_size \<Rightarrow>
     (case dict_get offer ''hash'' of
        None \<Rightarrow> (Some (KeyError ''hash''), s)
      | Some file_hash \<Rightarrow>
     (case dict_get offer ''from_username'' of
        None \<Rightarrow> (Some (KeyError ''from_username''), s)
      | Some sender \<Rightarrow>
     (let s1 = print [File_offer_from sender from_ip, Offer_filename filename,
                      Offer_size file_size] s in
      case slice16 file_hash of
        None \<Rightarrow> (Some TypeError, s1)
      | Some h \<Rightarrow>
     (let s2 = print [Offer_hash h, Accept_file_prompt] s1 in
      case answer of
        None \<Rightarrow> (Some EOFError, s2)
      | Some response \<Rightarrow>
          if response = ''y'' \<or> response = ''Y''
          then (None, print [File_transfer_starting, Not_implemented_note] s2)
          else (None, print [File_rejected] s2)))))))"

section \<open>The dispatcher (lines 82-138)\<close>

text \<open>The body of the \<open>try\<close> block, for a parsed object \<open>message\<close>. \<open>now\<close> is the clock
  reading of this call.\<close>

definition dispatch ::
  "(string \<times> json) list \<Rightarrow> string \<times> int \<Rightarrow> real \<Rightarrow> string option \<Rightarrow> chat \<Rightarrow> result" where
  "dispatch message addr now answer s =
     (let msg_type = (case dict_get message ''type'' of None \<Rightarrow> JStr ''message'' | Some t \<Rightarrow> t);
          from_ip = fst addr in
      if msg_type = JStr ''presence'' then
        (case dict_get message ''username'' of
           None \<Rightarrow> (Some (KeyError ''username''), s)
         | Some u \<Rightarrow>
             (None, s\<lparr>peers := AList.update from_ip
                                  \<lparr>peer_username = u, last_seen = now\<rparr> (peers s)\<rparr>))
      else if msg_type = JStr ''message'' then
        (if dict_get message ''to_username'' = Some (JStr (username s)) then
           (case dict_get message ''from_username'' of
              None \<Rightarrow> (Some (KeyError ''from_username''), s)
            | Some sender \<Rightarrow>
           (case dict_get message ''text'' of
              None \<Rightarrow> (Some (KeyError ''text''), s)
            | Some (JStr text) \<Rightarrow>
                (case (if startswith text ''/''
                       then handle_command text (Some from_ip) now s
                       else (None, print [Chat_line sender from_ip text] s)) of
                   (Some e, s1) \<Rightarrow> (Some e, s1)
                 | (None, s1) \<Rightarrow>
                     (None, if \<not> truthy (current_chat s1)
                            then s1\<lparr>current_chat := Some from_ip\<rparr> else s1))
            | Some _ \<Rightarrow> (Some AttributeError, s)))
         else (None, s))
      else if msg_type = JStr ''typing'' then
        (if dict_get message ''to_username'' = Some (JStr (username s)) then
           (case dict_get message ''from_username'' of
              None \<Rightarrow> (Some (KeyError ''from_username''), s)
            | Some sender \<Rightarrow> (None, print [Is_typing sender] s))
         else (None, s))
      else if msg_type = JStr ''read_receipt'' then
        (if dict_get message ''to_username'' = Some (JStr (username s)) then
           (case dict_get message ''from_username'' of
              None \<Rightarrow> (Some (KeyError ''from_username''), s)
            | Some sender \<Rightarrow> (None, print [Message_read_by sender] s))
         else (None, s))
      else if msg_type = JStr ''file_offer'' then
        (if dict_get message ''to_username'' = Some (JStr (username s))
         then handle_file_offer message from_ip answer s
         else (None, s))
      else if msg_type = JStr ''disconnect'' then
        (case map_of (peers s) from_ip of
           None \<Rightarrow> (None, s)
         | Some info \<Rightarrow>
             (let s1 = print [Has_disconnected (peer_username info) from_ip] s;
                  s2 = (if current_chat s1 = Some from_ip
                        then s1\<lparr>current_chat := None\<rparr> else s1)
              in (None, s2\<lparr>peers := AList.delete from_ip (peers s2)\<rparr>)))
      else (None, s))"

text \<open>The \<open>try\<close> block: decoding, then the dispatch; \<open>message.get\<close> on a value that is
  not a dict raises AttributeError.\<close>

definition try_handle ::
  "payload \<Rightarrow> string \<times> int \<Rightarrow> real \<Rightarrow> string option \<Rightarrow> chat \<Rightarrow> result" where
  "try_handle data addr now answer s =
     (case data of
        Not_utf8 \<Rightarrow> (Some UnicodeDecodeError, s)
      | Not_json \<Rightarrow> (Some JSONDecodeError, s)
      | Too_deep \<Rightarrow> (Some RecursionError, s)
      | Json (JDict message) \<Rightarrow> dispatch message addr now answer s
      | Json _ \<Rightarrow> (Some AttributeError, s))"

text \<open>\<open>handle_message\<close> with its two \<open>except\<close> clauses: nothing is raised to the caller.
  The listener starts one thread for each datagram and takes no lock; the model is of one
  call running undisturbed.\<close>

definition handle_message ::
  "payload \<Rightarrow> string \<times> int \<Rightarrow> real \<Rightarrow> string option \<Rightarrow> chat \<Rightarrow> chat" where
  "handle_message data addr now answer s =
     (case try_handle data addr now answer s of
        (None, s1) \<Rightarrow> s1
      | (Some JSONDecodeError, s1) \<Rightarrow> print [Received_invalid_message (fst addr)] s1
      | (Some e, s1) \<Rightarrow> print [Error_handling_message e] s1)"

section \<open>Outgoing file offers (lines 301-326)\<close>

text \<open>The file system as the program sees it: what a path resolves to, if anything.
  File contents are byte strings. The SHA-256 digest of \<open>calculate_file_hash\<close> is a
  parameter \<open>sha256_hex\<close>.\<close>

datatype node = File string | Dir

type_synonym filesystem = "string \<Rightarrow> node option"

definition basename :: "string \<Rightarrow> string" where
  "basename path = rev (takeWhile (\<lambda>c. c \<noteq> CHR ''/'') (rev path))"

text \<open>\<open>send_ok\<close> tells whether \<open>socket.sendto\<close> returns (or raises OSError). Opening a
  directory in \<open>calculate_file_hash\<close> raises, and nothing in \<open>send_file_offer\<close>
  catches that.\<close>

definition send_file_offer ::
  "filesystem \<Rightarrow> (string \<Rightarrow> string) \<Rightarrow> string \<Rightarrow> string \<Rightarrow> string \<Rightarrow> int \<Rightarrow>
   real \<Rightarrow> bool \<Rightarrow> chat \<Rightarrow> result" where
  "send_file_offer fs sha256_hex filename peer_ip peer_name peer_port now send_ok s =
     (case fs filename of
        None \<Rightarrow> (None, print [File_not_found filename] s)
      | Some Dir \<Rightarrow> (Some IsADirectoryError, s)
      | Some (File content) \<Rightarrow>
          (let file_size = length content;
               file_hash = sha256_hex content;
               message = JDict [(''type'', JStr ''file_offer''),
                                (''from_username'', JStr (username s)),
                                (''to_username'', JStr peer_name),
                                (''filename'', JStr (basename filename)),
                                (''size'', JInt (int file_size)),
                                (''hash'', JStr file_hash),
                                (''timestamp'', JFloat now)]
           in if send_ok
              then (None, print [File_offer_sent (basename filename) file_size,
                                 Waiting_for_response]
                            (s\<lparr>sent := sent s @ [(message, peer_ip, peer_port)]\<rparr>))
              else (None, print [Failed_to_send_file_offer OSError] s)))"

section \<open>One-shot discovery (lines 368-404)\<close>

text \<open>What one call of \<open>recvfrom\<close> in the loop does: it times out after the socket's one
  second, fails otherwise, or returns a datagram; the last carries the clock reading taken
  for \<open>last_seen\<close>.\<close>

datatype recv = Timed_out | Recv_failed | Received payload "string \<times> int" real

text \<open>The body of the loop's \<open>try\<close>; \<open>local_ip\<close> is what \<open>get_local_ip()\<close> returns.\<close>

definition discover_try :: "string \<Rightarrow> recv \<Rightarrow> chat \<Rightarrow> result" where
  "discover_try local_ip r s =
     (case r of
        Timed_out \<Rightarrow> (Some SocketTimeout, s)
      | Recv_failed \<Rightarrow> (Some OSError, s)
      | Received Not_utf8 addr t \<Rightarrow> (Some UnicodeDecodeError, s)
      | Received Not_json addr t \<Rightarrow> (Some JSONDecodeError, s)
      | Received Too_deep addr t \<Rightarrow> (Some RecursionError, s)
      | Received (Json (JDict message)) addr t \<Rightarrow>
          if dict_get message ''type'' = Some (JStr ''presence'') \<and> fst addr \<noteq> local_ip
          then (case dict_get message ''username'' of
                  None \<Rightarrow> (Some (KeyError ''username''), s)
                | Some u \<Rightarrow>
                    (None, s\<lparr>peers := AList.update (fst addr)
                                         \<lparr>peer_username = u, last_seen = t\<rparr> (peers s)\<rparr>))
          else (None, s)
      | Received (Json _) addr t \<Rightarrow> (Some AttributeError, s))"

text \<open>The \<open>while\<close> loop. The run of the loop is driven by the list of what the
  environment delivers: for each evaluation of the loop condition the clock reading, and
  what the following \<open>recvfrom\<close> does. Both \<open>except\<close> clauses (\<open>socket.timeout\<close> and
  the catch-all) go on with the next iteration, so whatever the body raised is dropped.\<close>

fun discover_loop :: "real \<Rightarrow> real \<Rightarrow> string \<Rightarrow> (real \<times> recv) list \<Rightarrow> chat \<Rightarrow> chat" where
  "discover_loop start_time timeout local_ip [] s = s"
| "discover_loop start_time timeout local_ip ((t, r) # rest) s =
     (if t - start_time < timeout
      then discover_loop start_time timeout local_ip rest (snd (discover_try local_ip r s))
      else s)"

text \<open>\<open>discover_peers\<close>: the broadcast is not guarded, so a failing \<open>sendto\<close> ends the
  routine with the exception. \<open>t_end\<close> is the clock reading of the final listing.\<close>

definition discover_peers ::
  "real \<Rightarrow> string \<Rightarrow> bool \<Rightarrow> real \<Rightarrow> real \<Rightarrow> (real \<times> recv) list \<Rightarrow> real \<Rightarrow> chat \<Rightarrow> result" where
  "discover_peers timeout local_ip send_ok t_msg start_time trace t_end s =
     (let s1 = print [Discovering_peers] s;
          discovery_msg = JDict [(''type'', JStr ''presence''),
                                 (''username'', JStr (username s1)),
                                 (''timestamp'', JFloat t_msg)]
      in if \<not> send_ok then (Some OSError, s1)
         else
           (let s2 = s1\<lparr>sent := sent s1 @ [(discovery_msg, ''255.255.255.255'', port s1)]\<rparr>;
                s3 = s2\<lparr>peers := []\<rparr>;
                s4 = discover_loop start_time timeout local_ip trace s3
            in (None, list_peers t_end s4)))"

section \<open>The datagrams the program sends\<close>

text \<open>The objects built by \<open>send_presence\<close> (lines 277-281), \<open>send_message\<close> (lines
  243-249), \<open>send_typing\<close> (lines 263-268) and \<open>send_disconnect\<close> (lines 290-294).\<close>

definition presence_dict :: "string \<Rightarrow> real \<Rightarrow> (string \<times> json) list" where
  "presence_dict name t =
     [(''type'', JStr ''presence''), (''username'', JStr name), (''timestamp'', JFloat t)]"

definition message_dict :: "string \<Rightarrow> string \<Rightarrow> string \<Rightarrow> real \<Rightarrow> (string \<times> json) list" where
  "message_dict name peer_name text t =
     [(''type'', JStr ''message''), (''from_username'', JStr name),
      (''to_username'', JStr peer_name), (''text'', JStr text), (''timestamp'', JFloat t)]"

definition typing_dict :: "string \<Rightarrow> string \<Rightarrow> real \<Rightarrow> (string \<times> json) list" where
  "typing_dict name peer_name t =
     [(''type'', JStr ''typing''), (''from_username'', JStr name),
      (''to_username'', JStr peer_name), (''timestamp'', JFloat t)]"

definition disconnect_dict :: "string \<Rightarrow> real \<Rightarrow> (string \<times> json) list" where
  "disconnect_dict name t =
     [(''type'', JStr ''disconnect''), (''username'', JStr name), (''timestamp'', JFloat t)]"

text \<open>A listener started as user \<open>me\<close> on port 5000, used in the examples below.\<close>

definition me :: chat where
  "me = init (Some ''me'') ''host'' 5000"

text \<open>Two states reached from it: after a presence datagram from alice at 10.0.0.2, and
  after her first chat message.\<close>

definition alice_online :: chat where
  "alice_online =
     handle_message (Json (JDict (presence_dict ''alice'' 10))) (''10.0.0.2'', 5000) 10 None me"

definition chatting_with_alice :: chat where
  "chatting_with_alice =
     handle_message (Json (JDict (message_dict ''alice'' ''me'' ''hi'' 11))) (''10.0.0.2'', 5000)
       11 None alice_online"

text \<open>A discovery run: what arrives while the window is open, and a late answer.\<close>

definition probe_window :: "(real \<times> recv) list" where
  "probe_window =
     [(1, Received (Json (JDict (presence_dict ''bob'' 1))) (''10.0.0.3'', 5000) 1),
      (2, Timed_out),
      (3, Received (Json (JDict (presence_dict ''me'' 0))) (''10.0.0.1'', 5000) 3),
      (4, Received Not_json (''10.0.0.5'', 5000) 4)]"

definition probe_late :: "(real \<times> recv) list" where
  "probe_late =
     [(7, Received (Json (JDict (presence_dict ''carol'' 7))) (''10.0.0.4'', 5000) 7)]"

section \<open>Properties\<close>

subsection \<open>Evaluation and frame lemmas\<close>

lemmas run_defs = handle_message_def try_handle_def dispatch_def handle_command_def
  handle_file_offer_def list_peers_def show_help_def dict_get_def presence_dict_def
  message_dict_def typing_dict_def disconnect_dict_def startswith_def print_def truthy_def
  me_def init_def Let_def

lemma alice_online_eq:
  "alice_online = \<lparr>username = ''me'', port = 5000,
      peers = [(''10.0.0.2'', \<lparr>peer_username = JStr ''alice'', last_seen = 10\<rparr>)],
      current_chat = None, out = [], sent = []\<rparr>"
  by (simp add: alice_online_def run_defs)

lemma chatting_with_alice_eq:
  "chatting_with_alice = \<lparr>username = ''me'', port = 5000,
      peers = [(''10.0.0.2'', \<lparr>peer_username = JStr ''alice'', last_seen = 10\<rparr>)],
      current_chat = Some ''10.0.0.2'',
      out = [Chat_line (JStr ''alice'') ''10.0.0.2'' ''hi''], sent = []\<rparr>"
  by (simp add: chatting_with_alice_def alice_online_eq run_defs)

text \<open>\<open>strip\<close> removes the no-break space and NEL like any other white space, so a
  \<open>/msg\<close> target written with them names the peer.\<close>

lemma strip_latin1_space:
  "strip (CHR 0xA0 # ''10.0.0.2'' @ [CHR 0x85]) = ''10.0.0.2''"
  by (simp add: strip_def isspace_def)

lemma msg_target_is_stripped:
  "handle_command (''/msg '' @ CHR 0xA0 # ''10.0.0.2'' @ [CHR 0x85]) (Some ''10.0.0.3'') 12
     alice_online
   = (None, alice_online\<lparr>current_chat := Some ''10.0.0.2'',
                             out := [Now_chatting_with (JStr ''alice'') ''10.0.0.2'']\<rparr>)"
  by (simp add: alice_online_eq handle_command_def startswith_def print_def strip_def
        isspace_def Let_def)

text \<open>What a command can touch: never the registry or the socket, and nothing at all when
  it raises (only the lookup of the partner's name in the \<open>/quit\<close> branch can).\<close>

lemma handle_command_frame:
  assumes "handle_command c f now s = (e, s1)"
  shows "peers s1 = peers s \<and> sent s1 = sent s \<and> username s1 = username s"
  using assms
  by (auto simp: handle_command_def print_def list_peers_def show_help_def Let_def
           split: if_splits option.splits)

lemma handle_command_raise:
  assumes "handle_command c f now s = (Some e, s1)"
  shows "s1 = s \<and> (\<exists>k. e = KeyError k)"
  using assms
  by (auto simp: handle_command_def print_def list_peers_def show_help_def Let_def
           split: if_splits option.splits)

lemma handle_command_idle:
  assumes "handle_command c f now s = (e, s1)"
    and "\<not> (startswith c ''/msg '' \<and> map_of (peers s) (strip (drop 5 c)) \<noteq> None)"
    and "current_chat s = None"
  shows "current_chat s1 = None \<and> e = None"
  using assms
  by (auto simp: handle_command_def print_def list_peers_def show_help_def Let_def truthy_def
           split: if_splits option.splits)

lemma handle_command_partner:
  assumes "handle_command c f now s = (e, s1)"
    and "current_chat s = Some p" and "p \<noteq> []"
    and "\<not> (startswith c ''/msg '' \<and> map_of (peers s) (strip (drop 5 c)) \<noteq> None
            \<and> strip (drop 5 c) \<noteq> p)"
    and "\<not> (c = ''/quit'' \<and> truthy f \<and> map_of (peers s) p \<noteq> None)"
  shows "current_chat s1 = Some p"
  using assms
  by (auto simp: handle_command_def print_def list_peers_def show_help_def Let_def truthy_def
           split: if_splits option.splits)

lemma handle_file_offer_frame:
  assumes "handle_file_offer offer ip answer s = (e, s1)"
  shows "peers s1 = peers s \<and> current_chat s1 = current_chat s \<and> sent s1 = sent s"
  using assms
  by (auto simp: handle_file_offer_def print_def Let_def split: if_splits option.splits)

lemma handle_file_offer_raise:
  assumes "handle_file_offer offer ip answer s = (Some e, s1)"
  shows "e \<noteq> JSONDecodeError"
  using assms
  by (auto simp: handle_file_offer_def print_def Let_def split: if_splits option.splits)

text \<open>A raising dispatch has changed neither the registry nor the partner.\<close>

lemma dispatch_raise:
  assumes "dispatch m addr now answer s = (Some e, s1)"
  shows "peers s1 = peers s \<and> current_chat s1 = current_chat s \<and> sent s1 = sent s
         \<and> e \<noteq> JSONDecodeError"
  using assms
  by (auto simp: dispatch_def Let_def print_def
           split: if_splits option.splits json.splits prod.splits
           dest: handle_command_raise handle_file_offer_frame handle_file_offer_raise)

lemma try_handle_raise:
  assumes "try_handle data addr now answer s = (Some e, s1)"
  shows "peers s1 = peers s \<and> current_chat s1 = current_chat s \<and> sent s1 = sent s
         \<and> (e = JSONDecodeError \<longleftrightarrow> data = Not_json)"
  using assms
  by (auto simp: try_handle_def split: payload.splits json.splits dest: dispatch_raise)

lemma handle_message_fields:
  assumes "try_handle data addr now answer s = (e, s1)"
  shows "peers (handle_message data addr now answer s) = peers s1
       \<and> current_chat (handle_message data addr now answer s) = current_chat s1
       \<and> sent (handle_message data addr now answer s) = sent s1"
  using assms by (cases e; simp add: handle_message_def print_def split: exn.splits)

text \<open>The three datagram kinds that change the state, as equations.\<close>

lemma presence_upsert:
  assumes "dict_get message ''type'' = Some (JStr ''presence'')"
    and "dict_get message ''username'' = Some u"
  shows "handle_message (Json (JDict message)) addr now answer s
         = s\<lparr>peers := AList.update (fst addr) \<lparr>peer_username = u, last_seen = now\<rparr> (peers s)\<rparr>"
  using assms by (simp add: handle_message_def try_handle_def dispatch_def)

lemma disconnect_unknown:
  assumes "dict_get bye ''type'' = Some (JStr ''disconnect'')" and "map_of (peers s) p = None"
  shows "handle_message (Json (JDict bye)) (p, prt) now answer s = s"
  using assms by (simp add: handle_message_def try_handle_def dispatch_def)

lemma disconnect_known:
  assumes "dict_get bye ''type'' = Some (JStr ''disconnect'')"
    and "map_of (peers s) p = Some info"
  shows "handle_message (Json (JDict bye)) (p, prt) now answer s
         = s\<lparr>peers := AList.delete p (peers s),
              current_chat := (if current_chat s = Some p then None else current_chat s),
              out := out s @ [Has_disconnected (peer_username info) p]\<rparr>"
  using assms by (simp add: handle_message_def try_handle_def dispatch_def print_def Let_def)

lemma chat_adopts:
  assumes idle: "current_chat s = None"
    and ty: "dict_get msg ''type'' = Some (JStr ''message'')"
    and rcpt: "dict_get msg ''to_username'' = Some (JStr (username s))"
    and frm: "dict_get msg ''from_username'' = Some sender"
    and body: "dict_get msg ''text'' = Some (JStr c)"
    and nomsg: "\<not> (startswith c ''/msg '' \<and> map_of (peers s) (strip (drop 5 c)) \<noteq> None)"
  shows "current_chat (handle_message (Json (JDict msg)) (p, prt) now answer s) = Some p
       \<and> peers (handle_message (Json (JDict msg)) (p, prt) now answer s) = peers s"
proof (cases "startswith c ''/''")
  case True
  obtain e s1 where hc: "handle_command c (Some p) now s = (e, s1)" by force
  from handle_command_idle [OF hc nomsg idle] handle_command_frame [OF hc]
  show ?thesis using True ty rcpt frm body hc
    by (simp add: handle_message_def try_handle_def dispatch_def truthy_def)
next
  case False
  then show ?thesis using idle ty rcpt frm body
    by (simp add: handle_message_def try_handle_def dispatch_def truthy_def print_def)
qed

text \<open>The registry under a dispatch that is not the disconnect of a known peer.\<close>

lemma dispatch_entry:
  assumes "\<not> (dict_get m ''type'' = Some (JStr ''disconnect'')
              \<and> map_of (peers s) (fst addr) \<noteq> None)"
    and "dispatch m addr now answer s = (e, s1)"
    and "map_of (peers s) ip = Some info" and "ip \<noteq> fst addr"
  shows "map_of (peers s1) ip = Some info"
  using assms
  by (auto simp: dispatch_def Let_def print_def update_conv'
           split: if_splits option.splits json.splits prod.splits
           dest: handle_command_frame handle_file_offer_frame)

lemma dispatch_dom:
  assumes "\<not> (dict_get m ''type'' = Some (JStr ''disconnect'')
              \<and> map_of (peers s) (fst addr) \<noteq> None)"
    and "dispatch m addr now answer s = (e, s1)"
  shows "dom (map_of (peers s)) \<subseteq> dom (map_of (peers s1))"
  using assms
  by (auto simp: dispatch_def Let_def print_def update_conv'
           split: if_splits option.splits json.splits prod.splits
           dest: handle_command_frame handle_file_offer_frame)

lemma peer_lines_mem:
  "(ip, info) \<in> set ps
   \<Longrightarrow> Peer_line (peer_username info) ip (peer_status now info) \<in> set (peer_lines now ps)"
  by (induction ps) auto

lemma update_mem: "(k, v) \<in> set (AList.update k v al)"
  by (induction al) auto


subsection \<open>Commands\<close>

text \<open>
  C7. For an address \<open>a\<close> that is not a key of the registry, handling the command
  \<open>/msg a\<close> raises nothing and changes nothing but the terminal, where it reports that the
  user was not found: the chat partner and the registry are the same before and after.
  (An address has no surrounding white space, which \<open>strip\<close> would remove.)
\<close>

theorem msg_unknown_address:
  assumes "map_of (peers s) a = None" and "strip a = a"
  shows "handle_command (''/msg '' @ a) from_ip now s
           = (None, s\<lparr>out := out s @ [User_not_found a]\<rparr>)"
  using assms by (simp add: handle_command_def startswith_def print_def)

theorem msg_unknown_address_witness:
  "map_of (peers chatting_with_alice) ''10.0.0.9'' = None
   \<and> strip ''10.0.0.9'' = ''10.0.0.9''
   \<and> handle_command ''/msg 10.0.0.9'' (Some ''10.0.0.3'') 12 chatting_with_alice
       = (None, chatting_with_alice\<lparr>out := [Chat_line (JStr ''alice'') ''10.0.0.2'' ''hi'',
                                              User_not_found ''10.0.0.9'']\<rparr>)"
proof -
  have h: "map_of (peers chatting_with_alice) ''10.0.0.9'' = None"
    "strip ''10.0.0.9'' = ''10.0.0.9''"
    by (simp_all add: chatting_with_alice_eq strip_def isspace_def)
  from msg_unknown_address [OF h, of "Some ''10.0.0.3''" 12] h
  show ?thesis by (simp add: chatting_with_alice_eq)
qed

subsection \<open>File offers\<close>

text \<open>
  C9. When nothing exists at the path (\<open>os.path.exists\<close> is false), the file offer is
  given up: the user is told that the file was not found, no datagram is handed to the
  socket, no exception is raised, and the chat partner and the registry stay as they were.
\<close>

theorem file_offer_missing_path:
  assumes "fs filename = None"
  shows "send_file_offer fs sha256_hex filename peer_ip peer_name peer_port now send_ok s
           = (None, s\<lparr>out := out s @ [File_not_found filename]\<rparr>)"
  using assms by (simp add: send_file_offer_def print_def)

theorem file_offer_missing_path_witness:
  "[''/tmp/a.txt'' \<mapsto> File ''abc''] ''/tmp/nothing'' = None
   \<and> send_file_offer [''/tmp/a.txt'' \<mapsto> File ''abc''] (\<lambda>c. ''00'') ''/tmp/nothing''
        ''10.0.0.2'' ''alice'' 5000 12 True chatting_with_alice
       = (None, chatting_with_alice\<lparr>out := [Chat_line (JStr ''alice'') ''10.0.0.2'' ''hi'',
                                              File_not_found ''/tmp/nothing'']\<rparr>)"
proof -
  have h: "[''/tmp/a.txt'' \<mapsto> File ''abc''] ''/tmp/nothing'' = None" by simp
  from file_offer_missing_path [of "[''/tmp/a.txt'' \<mapsto> File ''abc'']" "''/tmp/nothing''"
         "\<lambda>c. ''00''" "''10.0.0.2''" "''alice''" 5000 12 True chatting_with_alice, OF h] h
  show ?thesis by (simp add: chatting_with_alice_eq)
qed

subsection \<open>Liveness\<close>

text \<open>
  C4. A presence datagram handled at time \<open>t0\<close> enters its sender in the registry with
  last-seen \<open>t0\<close>. The listing then shows that peer as active at \<open>t0 + 59\<close> seconds and as
  inactive at \<open>t0 + 61\<close> seconds; in general the entry counts as active exactly when
  \<open>now - last_seen < 60\<close>.
\<close>

theorem presence_liveness:
  assumes "dict_get message ''type'' = Some (JStr ''presence'')"
    and "dict_get message ''username'' = Some u"
  shows "let s' = handle_message (Json (JDict message)) (a, p) t0 answer s;
             info = \<lparr>peer_username = u, last_seen = t0\<rparr>
         in map_of (peers s') a = Some info
          \<and> Peer_line u a Active \<in> set (peer_lines (t0 + 59) (peers s'))
          \<and> Peer_line u a Inactive \<in> set (peer_lines (t0 + 61) (peers s'))
          \<and> (\<forall>now. peer_status now info = Active \<longleftrightarrow> now - t0 < 60)"
proof -
  let ?info = "\<lparr>peer_username = u, last_seen = t0\<rparr>"
  let ?s' = "handle_message (Json (JDict message)) (a, p) t0 answer s"
  have s': "peers ?s' = AList.update a ?info (peers s)"
    using assms by (simp add: presence_upsert)
  have m: "(a, ?info) \<in> set (peers ?s')" by (simp add: s' update_mem)
  have "Peer_line u a (peer_status (t0 + 59) ?info) \<in> set (peer_lines (t0 + 59) (peers ?s'))"
    using peer_lines_mem [OF m] by simp
  moreover
  have "Peer_line u a (peer_status (t0 + 61) ?info) \<in> set (peer_lines (t0 + 61) (peers ?s'))"
    using peer_lines_mem [OF m] by simp
  ultimately show ?thesis
    by (simp add: s' update_conv' peer_status_def Let_def)
qed

theorem presence_liveness_witness:
  "dict_get (presence_dict ''alice'' 100) ''type'' = Some (JStr ''presence'')
   \<and> dict_get (presence_dict ''alice'' 100) ''username'' = Some (JStr ''alice'')
   \<and> peer_lines 159 (peers (handle_message (Json (JDict (presence_dict ''alice'' 100)))
                               (''10.0.0.2'', 5000) 100 None alice_online))
       = [Peer_line (JStr ''alice'') ''10.0.0.2'' Active]
   \<and> peer_lines 161 (peers (handle_message (Json (JDict (presence_dict ''alice'' 100)))
                               (''10.0.0.2'', 5000) 100 None alice_online))
       = [Peer_line (JStr ''alice'') ''10.0.0.2'' Inactive]"
proof -
  have h: "dict_get (presence_dict ''alice'' 100) ''type'' = Some (JStr ''presence'')"
    "dict_get (presence_dict ''alice'' 100) ''username'' = Some (JStr ''alice'')"
    by (simp_all add: dict_get_def presence_dict_def)
  from presence_liveness [OF h, of "''10.0.0.2''" 5000 100 None alice_online] h
  show ?thesis
    by (simp add: Let_def presence_upsert alice_online_eq peer_status_def)
qed

subsection \<open>The registry under the dispatcher\<close>

lemma handle_message_dom:
  assumes "\<not> (\<exists>m. data = Json (JDict m) \<and> dict_get m ''type'' = Some (JStr ''disconnect'')
                 \<and> map_of (peers s) (fst addr) \<noteq> None)"
  shows "dom (map_of (peers s)) \<subseteq> dom (map_of (peers (handle_message data addr now answer s)))"
proof (cases "try_handle data addr now answer s")
  case (Pair e s1)
  have "dom (map_of (peers s)) \<subseteq> dom (map_of (peers s1))"
  proof (cases data)
    case (Json v)
    show ?thesis
    proof (cases v)
      case (JDict m)
      with Json Pair assms show ?thesis
        using dispatch_dom [of m s addr now answer e s1] by (simp add: try_handle_def)
    qed (use Json Pair in \<open>simp_all add: try_handle_def\<close>)
  qed (use Pair in \<open>auto simp: try_handle_def\<close>)
  with handle_message_fields [OF Pair] show ?thesis by simp
qed

lemma handle_message_entry:
  assumes "\<not> (\<exists>m. data = Json (JDict m) \<and> dict_get m ''type'' = Some (JStr ''disconnect'')
                 \<and> map_of (peers s) (fst addr) \<noteq> None)"
    and "map_of (peers s) ip = Some info" and "ip \<noteq> fst addr"
  shows "map_of (peers (handle_message data addr now answer s)) ip = Some info"
proof (cases "try_handle data addr now answer s")
  case (Pair e s1)
  have "map_of (peers s1) ip = Some info"
  proof (cases data)
    case (Json v)
    show ?thesis
    proof (cases v)
      case (JDict m)
      with Json Pair assms show ?thesis
        using dispatch_entry [of m s addr now answer e s1 ip info] by (simp add: try_handle_def)
    qed (use Json Pair assms in \<open>simp_all add: try_handle_def\<close>)
  qed (use Pair assms in \<open>auto simp: try_handle_def\<close>)
  with handle_message_fields [OF Pair] show ?thesis by simp
qed

text \<open>
  C8. Handling a datagram removes no registry entry, unless it is the disconnect datagram
  of a known peer: for every other datagram (of any kind, also undecodable ones) the keys
  of the registry after handling include the keys before, and every entry other than the
  sender's own is kept as it was. No entry is dropped for age either: an entry whose
  last-seen is 60 seconds old or more is still in the listing, shown as inactive.
\<close>

theorem registry_entries_persist:
  assumes "\<not> (\<exists>m. data = Json (JDict m) \<and> dict_get m ''type'' = Some (JStr ''disconnect'')
                 \<and> map_of (peers s) (fst addr) \<noteq> None)"
  shows "dom (map_of (peers s)) \<subseteq> dom (map_of (peers (handle_message data addr now answer s)))
       \<and> (\<forall>ip info. map_of (peers s) ip = Some info \<and> ip \<noteq> fst addr
            \<longrightarrow> map_of (peers (handle_message data addr now answer s)) ip = Some info)
       \<and> (\<forall>ip info. map_of (peers (handle_message data addr now answer s)) ip = Some info
                     \<and> 60 \<le> t - last_seen info
            \<longrightarrow> Peer_line (peer_username info) ip Inactive
                  \<in> set (out (list_peers t (handle_message data addr now answer s))))"
proof -
  let ?s' = "handle_message data addr now answer s"
  have "Peer_line (peer_username info) ip Inactive \<in> set (out (list_peers t ?s'))"
    if m: "map_of (peers ?s') ip = Some info" and old: "60 \<le> t - last_seen info" for ip info
  proof -
    from m have mem: "(ip, info) \<in> set (peers ?s')" by (rule map_of_SomeD)
    then have ne: "peers ?s' \<noteq> []" by auto
    from old have "peer_status t info = Inactive" by (simp add: peer_status_def)
    with peer_lines_mem [OF mem, of t] ne show ?thesis
      by (simp add: list_peers_def print_def)
  qed
  with handle_message_dom [OF assms] handle_message_entry [OF assms] show ?thesis by blast
qed

theorem registry_entries_persist_witness:
  "dict_get (message_dict ''carol'' ''me'' ''/quit'' 100) ''type'' = Some (JStr ''message'')
   \<and> ''10.0.0.2'' \<in> dom (map_of (peers (handle_message
         (Json (JDict (message_dict ''carol'' ''me'' ''/quit'' 100))) (''10.0.0.3'', 5000) 100 None
         chatting_with_alice)))
   \<and> Peer_line (JStr ''alice'') ''10.0.0.2'' Inactive \<in> set (out (list_peers 100 (handle_message
         (Json (JDict (message_dict ''carol'' ''me'' ''/quit'' 100))) (''10.0.0.3'', 5000) 100 None
         chatting_with_alice)))"
proof -
  let ?s' = "handle_message (Json (JDict (message_dict ''carol'' ''me'' ''/quit'' 100)))
               (''10.0.0.3'', 5000) 100 None chatting_with_alice"
  let ?alice = "\<lparr>peer_username = JStr ''alice'', last_seen = 10\<rparr>"
  have h: "\<not> (\<exists>m. Json (JDict (message_dict ''carol'' ''me'' ''/quit'' 100)) = Json (JDict m)
          \<and> dict_get m ''type'' = Some (JStr ''disconnect'')
          \<and> map_of (peers chatting_with_alice) (fst (''10.0.0.3'', 5000::int)) \<noteq> None)"
    by (simp add: chatting_with_alice_eq)
  have k: "map_of (peers chatting_with_alice) ''10.0.0.2'' = Some ?alice"
    "''10.0.0.2'' \<noteq> fst (''10.0.0.3'', 5000::int)"
    by (simp_all add: chatting_with_alice_eq)
  have old: "60 \<le> (100::real) - last_seen ?alice" by simp
  note T = registry_entries_persist [OF h, of 100 None 100]
  from T [THEN conjunct2, THEN conjunct1, rule_format, OF conjI, OF k]
  have e: "map_of (peers ?s') ''10.0.0.2'' = Some ?alice" .
  then have A: "''10.0.0.2'' \<in> dom (map_of (peers ?s'))" by blast
  from T [THEN conjunct2, THEN conjunct2, rule_format, OF conjI, OF e old]
  have B: "Peer_line (JStr ''alice'') ''10.0.0.2'' Inactive \<in> set (out (list_peers 100 ?s'))"
    by simp
  have ty: "dict_get (message_dict ''carol'' ''me'' ''/quit'' 100) ''type''
              = Some (JStr ''message'')"
    by (simp add: dict_get_def message_dict_def)
  from ty A B show ?thesis by blast
qed

subsection \<open>Datagrams that cannot be handled\<close>

















subsection \<open>Session transitions\<close>

lemma adopt_then_disconnect_steps:
  assumes idle: "current_chat s = None"
    and absent: "map_of (peers s) p = None"
    and ty: "dict_get msg ''type'' = Some (JStr ''message'')"
    and rcpt: "dict_get msg ''to_username'' = Some (JStr (username s))"
    and frm: "dict_get msg ''from_username'' = Some sender"
    and body: "dict_get msg ''text'' = Some (JStr c)"
    and nomsg: "\<not> (startswith c ''/msg '' \<and> map_of (peers s) (strip (drop 5 c)) \<noteq> None)"
    and bye: "dict_get bye ''type'' = Some (JStr ''disconnect'')"
    and hello: "dict_get hello ''type'' = Some (JStr ''presence'')"
               "dict_get hello ''username'' = Some u"
    and s1: "s1 = handle_message (Json (JDict msg)) (p, prt1) t1 a1 s"
    and s2: "s2 = handle_message (Json (JDict hello)) (p, prt2) t2 a2 s1"
    and s3: "s3 = handle_message (Json (JDict bye)) (p, prt3) t3 a3 s2"
  shows "current_chat s1 = Some p \<and> current_chat s3 = None \<and> map_of (peers s3) p = None"
proof -
  from chat_adopts [OF idle ty rcpt frm body nomsg, of p prt1 t1 a1] s1
  have a: "current_chat s1 = Some p" and b: "peers s1 = peers s" by simp_all
  let ?info = "\<lparr>peer_username = u, last_seen = t2\<rparr>"
  from presence_upsert [OF hello, of "(p, prt2)" t2 a2 s1] s2
  have s2': "s2 = s1\<lparr>peers := AList.update p ?info (peers s1)\<rparr>" by simp
  then have k: "map_of (peers s2) p = Some ?info" by (simp add: update_conv')
  from disconnect_known [OF bye k, of prt3 t3 a3] s3 s2' a
  have "current_chat s3 = None" and "map_of (peers s3) p = None"
    by (simp_all add: delete_conv')
  with a show ?thesis by simp
qed

text \<open>
  C2, as the code has it. From the idle state, with \<open>p\<close> not in the registry, a chat
  message from \<open>p\<close> addressed to the local user makes \<open>p\<close> the chat partner, unless its
  text is a \<open>/msg\<close> command naming a known peer. Once a presence datagram from \<open>p\<close> has
  entered \<open>p\<close> in the registry, a disconnect datagram from \<open>p\<close> ends the session and
  removes \<open>p\<close> from the registry.
\<close>

theorem adopt_then_disconnect:
  assumes "current_chat s = None"
    and "map_of (peers s) p = None"
    and "dict_get msg ''type'' = Some (JStr ''message'')"
    and "dict_get msg ''to_username'' = Some (JStr (username s))"
    and "dict_get msg ''from_username'' = Some sender"
    and "dict_get msg ''text'' = Some (JStr c)"
    and "\<not> (startswith c ''/msg '' \<and> map_of (peers s) (strip (drop 5 c)) \<noteq> None)"
    and "dict_get bye ''type'' = Some (JStr ''disconnect'')"
    and "dict_get hello ''type'' = Some (JStr ''presence'')"
    and "dict_get hello ''username'' = Some u"
  shows "let s1 = handle_message (Json (JDict msg)) (p, prt1) t1 a1 s;
             s2 = handle_message (Json (JDict hello)) (p, prt2) t2 a2 s1;
             s3 = handle_message (Json (JDict bye)) (p, prt3) t3 a3 s2
         in current_chat s1 = Some p \<and> current_chat s3 = None \<and> map_of (peers s3) p = None"
  using adopt_then_disconnect_steps [OF assms refl refl refl] by (simp add: Let_def)

theorem adopt_then_disconnect_witness:
  "current_chat alice_online = None \<and> map_of (peers alice_online) ''10.0.0.3'' = None
   \<and> current_chat (handle_message (Json (JDict (message_dict ''bob'' ''me'' ''hi'' 20)))
                      (''10.0.0.3'', 5000) 20 None alice_online) = Some ''10.0.0.3''
   \<and> current_chat (handle_message (Json (JDict (disconnect_dict ''bob'' 22)))
        (''10.0.0.3'', 5000) 22 None
        (handle_message (Json (JDict (presence_dict ''bob'' 21))) (''10.0.0.3'', 5000) 21 None
          (handle_message (Json (JDict (message_dict ''bob'' ''me'' ''hi'' 20)))
                      (''10.0.0.3'', 5000) 20 None alice_online))) = None"
proof -
  have h: "current_chat alice_online = None" "map_of (peers alice_online) ''10.0.0.3'' = None"
    "dict_get (message_dict ''bob'' ''me'' ''hi'' 20) ''type'' = Some (JStr ''message'')"
    "dict_get (message_dict ''bob'' ''me'' ''hi'' 20) ''to_username''
       = Some (JStr (username alice_online))"
    "dict_get (message_dict ''bob'' ''me'' ''hi'' 20) ''from_username'' = Some (JStr ''bob'')"
    "dict_get (message_dict ''bob'' ''me'' ''hi'' 20) ''text'' = Some (JStr ''hi'')"
    "\<not> (startswith ''hi'' ''/msg ''
        \<and> map_of (peers alice_online) (strip (drop 5 ''hi'')) \<noteq> None)"
    "dict_get (disconnect_dict ''bob'' 22) ''type'' = Some (JStr ''disconnect'')"
    "dict_get (presence_dict ''bob'' 21) ''type'' = Some (JStr ''presence'')"
    "dict_get (presence_dict ''bob'' 21) ''username'' = Some (JStr ''bob'')"
    by (simp_all add: alice_online_eq dict_get_def message_dict_def disconnect_dict_def
          presence_dict_def startswith_def)
  from adopt_then_disconnect [OF h, where ?prt1.0 = 5000 and ?t1.0 = 20 and ?a1.0 = None
      and ?prt2.0 = 5000 and ?t2.0 = 21 and ?a2.0 = None
      and ?prt3.0 = 5000 and ?t3.0 = 22 and ?a3.0 = None] h(1,2)
  show ?thesis by (simp add: Let_def)
qed

text \<open>The claim as it was stated fails in both halves. The listener knows alice and is
  idle; bob, who is not in the registry, sends \<open>/msg 10.0.0.2\<close>: the partner is alice, not
  bob. And when bob sends \<open>hi\<close> instead and becomes the partner, his disconnect datagram
  leaves him the partner.\<close>

theorem unseen_sender_counterexample:
  "current_chat alice_online = None \<and> map_of (peers alice_online) ''10.0.0.3'' = None
   \<and> current_chat (handle_message (Json (JDict (message_dict ''bob'' ''me'' ''/msg 10.0.0.2'' 20)))
                      (''10.0.0.3'', 5000) 20 None alice_online) = Some ''10.0.0.2''
   \<and> current_chat (handle_message (Json (JDict (message_dict ''bob'' ''me'' ''hi'' 20)))
                      (''10.0.0.3'', 5000) 20 None alice_online) = Some ''10.0.0.3''
   \<and> current_chat (handle_message (Json (JDict (disconnect_dict ''bob'' 21)))
        (''10.0.0.3'', 5000) 21 None
        (handle_message (Json (JDict (message_dict ''bob'' ''me'' ''hi'' 20)))
                      (''10.0.0.3'', 5000) 20 None alice_online)) = Some ''10.0.0.3''"
  by (simp add: alice_online_eq run_defs strip_def isspace_def)

text \<open>
  C5, as the code has it. While the chat partner is \<open>p\<close>, a datagram from another address
  leaves the partner \<open>p\<close>, with two exceptions, both chat messages addressed to the local
  user that carry a command: \<open>/msg r\<close> naming a known peer \<open>r\<close> other than \<open>p\<close>, and
  \<open>/quit\<close>.
\<close>

theorem other_sender_keeps_partner:
  assumes act: "current_chat s = Some p" and ne: "p \<noteq> []" and other: "fst addr \<noteq> p"
    and nocmd: "\<forall>m c. data = Json (JDict m)
                  \<and> (dict_get m ''type'' = None \<or> dict_get m ''type'' = Some (JStr ''message''))
                  \<and> dict_get m ''to_username'' = Some (JStr (username s))
                  \<and> dict_get m ''from_username'' \<noteq> None
                  \<and> dict_get m ''text'' = Some (JStr c)
             \<longrightarrow> \<not> (startswith c ''/msg '' \<and> map_of (peers s) (strip (drop 5 c)) \<noteq> None
                     \<and> strip (drop 5 c) \<noteq> p)
                \<and> c \<noteq> ''/quit''"
  shows "current_chat (handle_message data addr now answer s) = Some p"
proof (cases "try_handle data addr now answer s")
  case (Pair e s1)
  note hm = handle_message_fields [OF Pair]
  show ?thesis
  proof (cases e)
    case (Some x)
    with Pair try_handle_raise [of data addr now answer s x s1] hm act show ?thesis by simp
  next
    case None
    have "current_chat s1 = Some p"
    proof (cases data)
      case (Json v)
      show ?thesis
      proof (cases v)
        case (JDict m)
        with Json Pair None have d: "dispatch m addr now answer s = (None, s1)"
          by (simp add: try_handle_def)
        have hc: "current_chat x = Some p"
          if "handle_command c (Some (fst addr)) now s = (None, x)"
            and "dict_get m ''type'' = None \<or> dict_get m ''type'' = Some (JStr ''message'')"
            and "dict_get m ''to_username'' = Some (JStr (username s))"
            and "dict_get m ''from_username'' \<noteq> None"
            and "dict_get m ''text'' = Some (JStr c)" for c x
          using handle_command_partner [OF that(1) act ne] nocmd that Json JDict
          by (auto simp: truthy_def)
        from d act ne other show ?thesis
          by (auto simp: dispatch_def Let_def print_def truthy_def
                   split: if_splits option.splits json.splits prod.splits
                   dest: hc handle_file_offer_frame)
      qed (use Json Pair None in \<open>simp_all add: try_handle_def\<close>)
    qed (use Pair None in \<open>simp_all add: try_handle_def\<close>)
    with hm show ?thesis by simp
  qed
qed

theorem other_sender_keeps_partner_witness:
  "current_chat chatting_with_alice = Some ''10.0.0.2'' \<and> ''10.0.0.2'' \<noteq> []
   \<and> fst (''10.0.0.3'', 5000::int) \<noteq> ''10.0.0.2''
   \<and> current_chat (handle_message
         (Json (JDict (message_dict ''carol'' ''me'' ''/msg 10.0.0.9'' 30)))
         (''10.0.0.3'', 5000) 30 None chatting_with_alice) = Some ''10.0.0.2''"
proof -
  have h: "current_chat chatting_with_alice = Some ''10.0.0.2''" "''10.0.0.2'' \<noteq> []"
    "fst (''10.0.0.3'', 5000::int) \<noteq> ''10.0.0.2''"
    by (simp_all add: chatting_with_alice_eq)
  have n: "\<forall>m c. Json (JDict (message_dict ''carol'' ''me'' ''/msg 10.0.0.9'' 30)) = Json (JDict m)
                  \<and> (dict_get m ''type'' = None \<or> dict_get m ''type'' = Some (JStr ''message''))
                  \<and> dict_get m ''to_username'' = Some (JStr (username chatting_with_alice))
                  \<and> dict_get m ''from_username'' \<noteq> None
                  \<and> dict_get m ''text'' = Some (JStr c)
             \<longrightarrow> \<not> (startswith c ''/msg ''
                     \<and> map_of (peers chatting_with_alice) (strip (drop 5 c)) \<noteq> None
                     \<and> strip (drop 5 c) \<noteq> ''10.0.0.2'')
                \<and> c \<noteq> ''/quit''"
    by (auto simp: chatting_with_alice_eq dict_get_def message_dict_def strip_def isspace_def)
  from other_sender_keeps_partner [OF h n, of 30 None] h show ?thesis by simp
qed

text \<open>The claim as it was stated fails at a \<open>/quit\<close> sent by a third peer: carol's message
  ends the chat with alice and makes carol the partner.\<close>

theorem remote_quit_counterexample:
  "current_chat chatting_with_alice = Some ''10.0.0.2''
   \<and> current_chat (handle_message (Json (JDict (message_dict ''carol'' ''me'' ''/quit'' 30)))
        (''10.0.0.3'', 5000) 30 None chatting_with_alice) = Some ''10.0.0.3''"
  by (simp add: chatting_with_alice_eq run_defs)

subsection \<open>A remote quit\<close>

text \<open>When the current partner, if there is one, is in the registry, a \<open>/quit\<close> from \<open>a\<close>
  clears the session and the sender is adopted right after.\<close>

lemma remote_quit_adopts_sender:
  assumes "dict_get msg ''type'' = Some (JStr ''message'')"
    and "dict_get msg ''to_username'' = Some (JStr (username s))"
    and "dict_get msg ''from_username'' = Some sender"
    and "dict_get msg ''text'' = Some (JStr ''/quit'')"
    and "a \<noteq> []"
    and "\<forall>b. current_chat s = Some b \<and> b \<noteq> [] \<longrightarrow> map_of (peers s) b \<noteq> None"
  shows "current_chat (handle_message (Json (JDict msg)) (a, prt) now answer s) = Some a"
  using assms
  by (auto simp: handle_message_def try_handle_def dispatch_def handle_command_def
                 startswith_def truthy_def print_def
           split: option.splits)

text \<open>
  C10 at a partner that is not in the registry. Bob's first chat message makes him the
  partner without entering him in the registry. A \<open>/quit\<close> from alice then looks up bob's
  name for the "Left chat" line before it clears the session; the lookup raises KeyError,
  which \<open>handle_message\<close> catches, so the session is not cleared and alice is not adopted:
  the partner is still bob.
\<close>

theorem remote_quit_unregistered_partner:
  "current_chat (handle_message (Json (JDict (message_dict ''bob'' ''me'' ''hi'' 1)))
                      (''10.0.0.3'', 5000) 1 None me) = Some ''10.0.0.3''
   \<and> handle_message (Json (JDict (message_dict ''alice'' ''me'' ''/quit'' 2)))
        (''10.0.0.2'', 5000) 2 None
        (handle_message (Json (JDict (message_dict ''bob'' ''me'' ''hi'' 1)))
                      (''10.0.0.3'', 5000) 1 None me)
      = me\<lparr>current_chat := Some ''10.0.0.3'',
            out := [Chat_line (JStr ''bob'') ''10.0.0.3'' ''hi'',
                    Error_handling_message (KeyError ''10.0.0.3'')]\<rparr>"
  by (simp add: run_defs)

subsection \<open>Discovery\<close>

lemma discover_try_dom:
  assumes "a \<in> dom (map_of (peers (snd (discover_try lip r s))))"
  shows "a \<in> dom (map_of (peers s))
       \<or> (a \<noteq> lip \<and> (\<exists>m prt tu. r = Received (Json (JDict m)) (a, prt) tu
                          \<and> dict_get m ''type'' = Some (JStr ''presence'')))"
  using assms
  by (cases r rule: recv.exhaust)
     (auto simp: discover_try_def update_conv'
           split: payload.splits json.splits option.splits if_splits)

lemma discover_try_keeps:
  "dom (map_of (peers s)) \<subseteq> dom (map_of (peers (snd (discover_try lip r s))))"
  by (cases r rule: recv.exhaust)
     (auto simp: discover_try_def update_conv'
           split: payload.splits json.splits option.splits if_splits)

text \<open>The loop stops at the first clock reading outside the window and looks at nothing
  that comes after it.\<close>

lemma discover_loop_stop:
  assumes "\<forall>(t', r') \<in> set pre. t' - st < tmo" and "\<not> (t - st < tmo)"
  shows "discover_loop st tmo lip (pre @ (t, r) # post) s = discover_loop st tmo lip pre s"
  using assms by (induction pre arbitrary: s) auto

lemma discover_loop_dom:
  assumes "a \<in> dom (map_of (peers (discover_loop st tmo lip tr s)))"
  shows "a \<in> dom (map_of (peers s))
       \<or> (a \<noteq> lip \<and> (\<exists>t' m prt tu. (t', Received (Json (JDict m)) (a, prt) tu) \<in> set tr
                          \<and> dict_get m ''type'' = Some (JStr ''presence'')))"
  using assms
proof (induction tr arbitrary: s)
  case Nil
  then show ?case by simp
next
  case (Cons x tr)
  obtain t r where x: "x = (t, r)" by force
  show ?case
  proof (cases "t - st < tmo")
    case True
    with Cons.prems x
    have "a \<in> dom (map_of (peers (discover_loop st tmo lip tr (snd (discover_try lip r s)))))"
      by simp
    from Cons.IH [OF this] discover_try_dom [of a lip r s] x show ?thesis
      by fastforce
  next
    case False
    with Cons.prems x show ?thesis by simp
  qed
qed

lemma discover_loop_keeps:
  "dom (map_of (peers s)) \<subseteq> dom (map_of (peers (discover_loop st tmo lip tr s)))"
proof (induction tr arbitrary: s)
  case Nil
  show ?case by simp
next
  case (Cons x tr)
  obtain t r where x: "x = (t, r)" by force
  show ?case
  proof (cases "t - st < tmo")
    case True
    have "dom (map_of (peers s)) \<subseteq> dom (map_of (peers (snd (discover_try lip r s))))"
      by (rule discover_try_keeps)
    also have "\<dots> \<subseteq> dom (map_of (peers (discover_loop st tmo lip tr
                                              (snd (discover_try lip r s)))))"
      by (rule Cons.IH)
    finally show ?thesis using True x by simp
  next
    case False
    with x show ?thesis by simp
  qed
qed

lemma discover_loop_adds:
  assumes "(t', Received (Json (JDict m)) (a, prt) tu) \<in> set tr"
    and "\<forall>(t, r) \<in> set tr. t - st < tmo"
    and "dict_get m ''type'' = Some (JStr ''presence'')" and "dict_get m ''username'' = Some u"
    and "a \<noteq> lip"
  shows "a \<in> dom (map_of (peers (discover_loop st tmo lip tr s)))"
  using assms(1,2)
proof (induction tr arbitrary: s)
  case Nil
  then show ?case by simp
next
  case (Cons x tr)
  obtain t r where x: "x = (t, r)" by force
  with Cons.prems have inw: "t - st < tmo" by simp
  show ?case
  proof (cases "x = (t', Received (Json (JDict m)) (a, prt) tu)")
    case True
    with x have r: "r = Received (Json (JDict m)) (a, prt) tu" by simp
    have "a \<in> dom (map_of (peers (snd (discover_try lip r s))))"
      using assms(3-5) by (simp add: r discover_try_def update_conv')
    with discover_loop_keeps [of "snd (discover_try lip r s)" st tmo lip tr] x inw
    show ?thesis by auto
  next
    case False
    with Cons.prems have "(t', Received (Json (JDict m)) (a, prt) tu) \<in> set tr"
      and "\<forall>(t, r) \<in> set tr. t - st < tmo" by auto
    from Cons.IH [OF this] x inw show ?thesis by simp
  qed
qed

lemma discover_loop_silent:
  assumes "\<forall>(t', r') \<in> set tr. r' = Timed_out"
  shows "discover_loop st tmo lip tr s = s"
  using assms by (induction tr arbitrary: s) (auto simp: discover_try_def)

text \<open>
  C6. When the broadcast has gone out, \<open>discover_peers\<close> empties the registry before it
  listens: the outcome does not depend on what the registry held. It stops at the first
  clock reading that is not inside the window and takes in nothing that arrives later.
  What it leaves in the registry are the source addresses of presence datagrams received
  inside the window, and never the machine's own address; every such datagram that
  carries a user name is entered. If every receive inside the window timed out, the
  registry is empty and the listing says that no peers were discovered.
\<close>

theorem discovery_window:
  assumes sends: "send_ok"
    and inside: "\<forall>(t', r') \<in> set pre. t' - start_time < timeout"
    and closed: "\<not> (t - start_time < timeout)"
    and res: "discover_peers timeout lip send_ok t_msg start_time (pre @ (t, r) # post) t_end s
                = (e, s')"
  shows "e = None
       \<and> discover_peers timeout lip send_ok t_msg start_time pre t_end (s\<lparr>peers := []\<rparr>) = (e, s')
       \<and> (\<forall>a \<in> dom (map_of (peers s')).
             a \<noteq> lip \<and> (\<exists>t' m prt tu. (t', Received (Json (JDict m)) (a, prt) tu) \<in> set pre
                               \<and> dict_get m ''type'' = Some (JStr ''presence'')))
       \<and> (\<forall>t' m a prt tu u. (t', Received (Json (JDict m)) (a, prt) tu) \<in> set pre
                \<and> dict_get m ''type'' = Some (JStr ''presence'')
                \<and> dict_get m ''username'' = Some u \<and> a \<noteq> lip
             \<longrightarrow> a \<in> dom (map_of (peers s')))
       \<and> ((\<forall>(t', r') \<in> set pre. r' = Timed_out)
             \<longrightarrow> peers s' = []
               \<and> out s' = out s @ [Discovering_peers, Available_peers, No_peers_discovered,
                                   Blank_line])"
proof -
  let ?msg = "JDict [(''type'', JStr ''presence''), (''username'', JStr (username s)),
                     (''timestamp'', JFloat t_msg)]"
  let ?s3 = "s\<lparr>out := out s @ [Discovering_peers],
               sent := sent s @ [(?msg, ''255.255.255.255'', port s)], peers := []\<rparr>"
  let ?s4 = "discover_loop start_time timeout lip pre ?s3"
  have stop: "discover_loop start_time timeout lip (pre @ (t, r) # post) ?s3 = ?s4"
    by (rule discover_loop_stop [OF inside closed])
  from res sends stop have e: "e = None" and s': "s' = list_peers t_end ?s4"
    by (simp_all add: discover_peers_def print_def Let_def)
  have same: "discover_peers timeout lip send_ok t_msg start_time pre t_end (s\<lparr>peers := []\<rparr>)
                = (e, s')"
    using sends e s' by (simp add: discover_peers_def print_def Let_def)
  have p: "peers s' = peers ?s4" by (simp add: s' list_peers_def print_def)
  have only: "a \<noteq> lip \<and> (\<exists>t' m prt tu. (t', Received (Json (JDict m)) (a, prt) tu) \<in> set pre
                               \<and> dict_get m ''type'' = Some (JStr ''presence''))"
    if "a \<in> dom (map_of (peers s'))" for a
    using discover_loop_dom [of a start_time timeout lip pre ?s3] that p by simp
  have every: "a \<in> dom (map_of (peers s'))"
    if "(t', Received (Json (JDict m)) (a, prt) tu) \<in> set pre"
      "dict_get m ''type'' = Some (JStr ''presence'')" "dict_get m ''username'' = Some u"
      "a \<noteq> lip"
    for t' m a prt tu u
    using discover_loop_adds [OF that(1) inside that(2,3,4), of ?s3] p by simp
  have silent: "peers s' = [] \<and> out s' = out s @ [Discovering_peers, Available_peers,
                                                   No_peers_discovered, Blank_line]"
    if "\<forall>(t', r') \<in> set pre. r' = Timed_out"
    using discover_loop_silent [OF that, of start_time timeout lip ?s3]
    by (simp add: s' list_peers_def print_def)
  from e same only every silent show ?thesis by blast
qed

theorem discovery_window_witness:
  "map fst probe_window = [1, 2, 3, 4] \<and> \<not> ((6::real) - 0 < 5)
   \<and> discover_peers 5 ''10.0.0.1'' True 0 0 (probe_window @ (6, Timed_out) # probe_late) 6
        alice_online
      = (None, alice_online\<lparr>
           peers := [(''10.0.0.3'', \<lparr>peer_username = JStr ''bob'', last_seen = 1\<rparr>)],
           out := [Discovering_peers, Available_peers,
                   Peer_line (JStr ''bob'') ''10.0.0.3'' Active, Blank_line],
           sent := [(JDict (presence_dict ''me'' 0), ''255.255.255.255'', 5000)]\<rparr>)
   \<and> discover_peers 5 ''10.0.0.1'' True 0 0 probe_window 6 (alice_online\<lparr>peers := []\<rparr>)
      = discover_peers 5 ''10.0.0.1'' True 0 0 (probe_window @ (6, Timed_out) # probe_late) 6
          alice_online"
proof -
  have h1: "True" by simp
  have h2: "\<forall>(t', r') \<in> set probe_window. t' - 0 < 5" by (simp add: probe_window_def)
  have h3: "\<not> ((6::real) - 0 < 5)" by simp
  have h4: "discover_peers 5 ''10.0.0.1'' True 0 0 (probe_window @ (6, Timed_out) # probe_late) 6
        alice_online
      = (None, alice_online\<lparr>
           peers := [(''10.0.0.3'', \<lparr>peer_username = JStr ''bob'', last_seen = 1\<rparr>)],
           out := [Discovering_peers, Available_peers,
                   Peer_line (JStr ''bob'') ''10.0.0.3'' Active, Blank_line],
           sent := [(JDict (presence_dict ''me'' 0), ''255.255.255.255'', 5000)]\<rparr>)"
    by (simp add: discover_peers_def discover_try_def probe_window_def probe_late_def
          alice_online_eq list_peers_def peer_status_def print_def dict_get_def presence_dict_def
          Let_def)
  have h5: "map fst probe_window = [1, 2, 3, 4]" by (simp add: probe_window_def)
  from discovery_window [OF h1 h2 h3 h4] h3 h4 h5 show ?thesis by simp
qed

end
